theory Spec2Isabelle
  imports Main "HOL-Library.Word"
begin

section \<open>Data model of PROJECT.c\<close>

type_synonym byte = "8 word"
type_synonym bytes = "byte list"

subsection \<open>Constants (PROJECT.c, lines 18 to 30)\<close>

definition PUB_KEY_SIZE :: nat where "PUB_KEY_SIZE = 64"
definition AES_KEY_SIZE :: nat where "AES_KEY_SIZE = 16"
definition AES_IV_SIZE :: nat where "AES_IV_SIZE = 12"
definition AES_TAG_SIZE :: nat where "AES_TAG_SIZE = 16"
definition SIGNATURE_SIZE :: nat where "SIGNATURE_SIZE = 64"
definition RX_BUFFER_SIZE :: nat where "RX_BUFFER_SIZE = 128"
definition CHALLENGE_SIZE :: nat where "CHALLENGE_SIZE = 32"
definition MAX_RETRIES :: nat where "MAX_RETRIES = 3"
definition DEVICE_KEY_SLOT :: nat where "DEVICE_KEY_SLOT = 0"

subsection \<open>Status codes of the libraries\<close>

text \<open>
  The program only ever compares a status with the success value of its library
  (\<open>HAL_OK\<close>, \<open>ATCA_SUCCESS\<close>, 0 for wolfCrypt), so the status types are datatypes with the
  codes the program names and one constructor for every other code of the secure element.
\<close>

datatype HAL_StatusTypeDef = HAL_OK | HAL_ERROR | HAL_BUSY | HAL_TIMEOUT

datatype ATCA_STATUS =
  ATCA_SUCCESS | ATCA_FUNC_FAIL | ATCA_GEN_FAIL | ATCA_RX_FAIL | ATCA_TX_FAIL
  | ATCA_OTHER nat

datatype uart = huart1 | huart2

text \<open>The peripheral bring-up calls of \<open>main\<close> and of the \<open>MX_..._Init\<close> functions.\<close>

datatype hal_call =
  HAL_Init | HAL_PWREx_ControlVoltageScaling | HAL_RCC_OscConfig | HAL_RCC_ClockConfig
  | HAL_RCC_GPIO_CLK_ENABLE
  | HAL_I2C_Init | HAL_I2CEx_ConfigAnalogFilter | HAL_I2CEx_ConfigDigitalFilter
  | HAL_UART_Init uart | HAL_UARTEx_SetTxFifoThreshold uart
  | HAL_UARTEx_SetRxFifoThreshold uart | HAL_UARTEx_DisableFifoMode uart
  | HAL_RNG_Init

subsection \<open>Observable operations\<close>

text \<open>
  Every call that leaves the program (UART, random number generator, secure element,
  wolfCrypt, delay, interrupt masking) is recorded with its arguments and its results.
  \<open>huart1\<close> is the console, \<open>huart2\<close> is the link to the peer (the Transport).
\<close>

datatype event =
    Ev_UART_Transmit uart bytes nat HAL_StatusTypeDef
      \<comment> \<open>handle, bytes sent, Size argument, status\<close>
  | Ev_UART_Receive uart nat HAL_StatusTypeDef bytes
      \<comment> \<open>handle, Size argument, status, bytes delivered\<close>
  | Ev_RNG HAL_StatusTypeDef "32 word"
  | Ev_HAL hal_call HAL_StatusTypeDef
  | Ev_Delay nat
  | Ev_disable_irq
  | Ev_atcab_init ATCA_STATUS
  | Ev_atcab_genkey nat ATCA_STATUS bytes
  | Ev_atcab_ecdh nat bytes ATCA_STATUS bytes
      \<comment> \<open>slot, peer public key, status, shared secret\<close>
  | Ev_atcab_sign nat bytes ATCA_STATUS bytes
      \<comment> \<open>slot, digest, status, signature\<close>
  | Ev_InitSha256 int
  | Ev_Sha256Update bytes int
  | Ev_Sha256Final bytes int bytes
      \<comment> \<open>message absorbed so far, return code, digest\<close>
  | Ev_AesInit int
  | Ev_AesGcmSetKey bytes int
  | Ev_AesGcmEncrypt bytes bytes bytes int bytes bytes
      \<comment> \<open>key, nonce, plaintext, return code, ciphertext, tag\<close>
  | Ev_AesFree
  | Ev_ecc_init
  | Ev_ecc_import_x963 bytes int
  | Ev_ecc_set_curve int
  | Ev_ecc_verify_hash bytes bytes bytes int int
      \<comment> \<open>signature, digest, imported key, return code, verify_res\<close>
  | Ev_ecc_free

subsection \<open>The environment\<close>

text \<open>
  The HAL, cryptoauthlib and wolfCrypt are not part of the repository. Their answers are
  parameters: what the \<open>t\<close>-th call that leaves the program returns. An output buffer is
  given as a function from the offset to the byte written there, and the model reads as
  many bytes as the call is asked to write. SHA-256 is a function of the message alone.
\<close>

record env =
  uart_tx_ret :: "nat \<Rightarrow> uart \<Rightarrow> bytes \<Rightarrow> HAL_StatusTypeDef"
  uart_rx_ret :: "nat \<Rightarrow> uart \<Rightarrow> nat \<Rightarrow> HAL_StatusTypeDef \<times> (nat \<Rightarrow> byte)"
  rng_ret :: "nat \<Rightarrow> HAL_StatusTypeDef \<times> 32 word"
  hal_ret :: "nat \<Rightarrow> hal_call \<Rightarrow> HAL_StatusTypeDef"
  atcab_init_ret :: "nat \<Rightarrow> ATCA_STATUS"
  atcab_genkey_ret :: "nat \<Rightarrow> nat \<Rightarrow> ATCA_STATUS \<times> (nat \<Rightarrow> byte)"
  atcab_ecdh_ret :: "nat \<Rightarrow> nat \<Rightarrow> bytes \<Rightarrow> ATCA_STATUS \<times> (nat \<Rightarrow> byte)"
  atcab_sign_ret :: "nat \<Rightarrow> nat \<Rightarrow> bytes \<Rightarrow> ATCA_STATUS \<times> (nat \<Rightarrow> byte)"
  wc_ret :: "nat \<Rightarrow> int"
  sha256_byte :: "bytes \<Rightarrow> nat \<Rightarrow> byte"
  aes_gcm_ret :: "nat \<Rightarrow> bytes \<Rightarrow> bytes \<Rightarrow> bytes \<Rightarrow> int \<times> (nat \<Rightarrow> byte) \<times> (nat \<Rightarrow> byte)"
  ecc_verify_ret :: "nat \<Rightarrow> bytes \<Rightarrow> bytes \<Rightarrow> bytes \<Rightarrow> int \<times> int"

subsection \<open>The program state\<close>

text \<open>
  The global buffers of PROJECT.c (lines 33 to 39), the number of calls that have left
  the program so far, and the record of those calls, oldest first.
\<close>

record world =
  device_pubkey :: bytes
  peer_pubkey :: bytes
  aes_key :: bytes
  rx_buffer :: bytes
  iv :: bytes
  challenge :: bytes
  peer_challenge :: bytes
  clock :: nat
  trace :: "event list"

definition log :: "event \<Rightarrow> world \<Rightarrow> world" where
  "log e w = w\<lparr>clock := Suc (clock w), trace := trace w @ [e]\<rparr>"

definition bytes_of :: "(nat \<Rightarrow> byte) \<Rightarrow> nat \<Rightarrow> bytes" where
  "bytes_of f n = map f [0..<n]"

text \<open>\<open>memcpy(&dst[i], src, n)\<close> and \<open>memset(dst, c, n)\<close> on a buffer held as a list.\<close>

definition memcpy_at :: "bytes \<Rightarrow> nat \<Rightarrow> bytes \<Rightarrow> nat \<Rightarrow> bytes" where
  "memcpy_at dst i src n = take i dst @ take n src @ drop (i + n) dst"

definition memset :: "bytes \<Rightarrow> byte \<Rightarrow> nat \<Rightarrow> bytes" where
  "memset dst c n = replicate n c @ drop n dst"

text \<open>
  A program that reaches \<open>Error_Handler\<close> never leaves it; \<open>Halted\<close> holds the state it
  stays in. \<open>Running\<close> holds the state of a program that goes on.
\<close>

datatype outcome = Running world | Halted world

section \<open>The calls that leave the program\<close>

definition HAL_UART_Transmit ::
  "env \<Rightarrow> uart \<Rightarrow> bytes \<Rightarrow> nat \<Rightarrow> world \<Rightarrow> HAL_StatusTypeDef \<times> world" where
  "HAL_UART_Transmit e h pData Size w =
     (let d = take Size pData; st = uart_tx_ret e (clock w) h d
      in (st, log (Ev_UART_Transmit h d Size st) w))"

text \<open>Returns the status and the new content of the buffer \<open>pData\<close>.\<close>

definition HAL_UART_Receive ::
  "env \<Rightarrow> uart \<Rightarrow> bytes \<Rightarrow> nat \<Rightarrow> world \<Rightarrow> HAL_StatusTypeDef \<times> bytes \<times> world" where
  "HAL_UART_Receive e h pData Size w =
     (case uart_rx_ret e (clock w) h Size of (st, f) \<Rightarrow>
        let d = bytes_of f Size
        in (st, d @ drop Size pData, log (Ev_UART_Receive h Size st d) w))"

text \<open>
  Returns the status and the value of \<open>*random32bit\<close> after the call, whatever the
  status is.
\<close>

definition HAL_RNG_GenerateRandomNumber ::
  "env \<Rightarrow> world \<Rightarrow> HAL_StatusTypeDef \<times> 32 word \<times> world" where
  "HAL_RNG_GenerateRandomNumber e w =
     (case rng_ret e (clock w) of (st, rnd) \<Rightarrow> (st, rnd, log (Ev_RNG st rnd) w))"

definition HAL_Delay :: "nat \<Rightarrow> world \<Rightarrow> world" where
  "HAL_Delay ms w = log (Ev_Delay ms) w"

definition hal_config :: "env \<Rightarrow> hal_call \<Rightarrow> world \<Rightarrow> HAL_StatusTypeDef \<times> world" where
  "hal_config e c w = (let st = hal_ret e (clock w) c in (st, log (Ev_HAL c st) w))"

definition atcab_init :: "env \<Rightarrow> world \<Rightarrow> ATCA_STATUS \<times> world" where
  "atcab_init e w = (let st = atcab_init_ret e (clock w) in (st, log (Ev_atcab_init st) w))"

definition atcab_genkey :: "env \<Rightarrow> nat \<Rightarrow> bytes \<Rightarrow> world \<Rightarrow> ATCA_STATUS \<times> bytes \<times> world" where
  "atcab_genkey e slot pubkey w =
     (case atcab_genkey_ret e (clock w) slot of (st, f) \<Rightarrow>
        let k = bytes_of f 64
        in (st, k @ drop 64 pubkey, log (Ev_atcab_genkey slot st k) w))"

definition atcab_ecdh :: "env \<Rightarrow> nat \<Rightarrow> bytes \<Rightarrow> world \<Rightarrow> ATCA_STATUS \<times> bytes \<times> world" where
  "atcab_ecdh e slot pubkey w =
     (let pk = take 64 pubkey in
      case atcab_ecdh_ret e (clock w) slot pk of (st, f) \<Rightarrow>
        let pms = bytes_of f 32
        in (st, pms, log (Ev_atcab_ecdh slot pk st pms) w))"

definition atcab_sign :: "env \<Rightarrow> nat \<Rightarrow> bytes \<Rightarrow> world \<Rightarrow> ATCA_STATUS \<times> bytes \<times> world" where
  "atcab_sign e slot msg w =
     (let digest = take 32 msg in
      case atcab_sign_ret e (clock w) slot digest of (st, f) \<Rightarrow>
        let sg = bytes_of f 64
        in (st, sg, log (Ev_atcab_sign slot digest st sg) w))"

text \<open>
  SHA-256 of wolfCrypt. The context \<open>wc_Sha256\<close> is the message absorbed so far; the
  digest has 32 bytes.
\<close>

definition SHA256 :: "env \<Rightarrow> bytes \<Rightarrow> bytes" where
  "SHA256 e m = bytes_of (sha256_byte e m) 32"

definition wc_InitSha256 :: "env \<Rightarrow> world \<Rightarrow> int \<times> bytes \<times> world" where
  "wc_InitSha256 e w = (let r = wc_ret e (clock w) in (r, [], log (Ev_InitSha256 r) w))"

definition wc_Sha256Update ::
  "env \<Rightarrow> bytes \<Rightarrow> bytes \<Rightarrow> nat \<Rightarrow> world \<Rightarrow> int \<times> bytes \<times> world" where
  "wc_Sha256Update e sha data len w =
     (let d = take len data; r = wc_ret e (clock w)
      in (r, sha @ d, log (Ev_Sha256Update d r) w))"

definition wc_Sha256Final :: "env \<Rightarrow> bytes \<Rightarrow> world \<Rightarrow> int \<times> bytes \<times> world" where
  "wc_Sha256Final e sha w =
     (let r = wc_ret e (clock w); h = SHA256 e sha
      in (r, h, log (Ev_Sha256Final sha r h) w))"

text \<open>AES-GCM of wolfCrypt. The context \<open>Aes\<close> is the key that was set.\<close>

definition wc_AesInit :: "env \<Rightarrow> world \<Rightarrow> int \<times> world" where
  "wc_AesInit e w = (let r = wc_ret e (clock w) in (r, log (Ev_AesInit r) w))"

definition wc_AesGcmSetKey :: "env \<Rightarrow> bytes \<Rightarrow> nat \<Rightarrow> world \<Rightarrow> int \<times> bytes \<times> world" where
  "wc_AesGcmSetKey e key len w =
     (let k = take len key; r = wc_ret e (clock w)
      in (r, k, log (Ev_AesGcmSetKey k r) w))"

text \<open>
  \<open>wc_AesGcmEncrypt(aes, out, in, sz, iv, ivSz, authTag, authTagSz, NULL, 0)\<close>: returns
  the return code, the \<open>sz\<close> bytes written to \<open>out\<close> and the \<open>authTagSz\<close> bytes of the tag.
\<close>

definition wc_AesGcmEncrypt ::
  "env \<Rightarrow> bytes \<Rightarrow> bytes \<Rightarrow> nat \<Rightarrow> bytes \<Rightarrow> nat \<Rightarrow> nat \<Rightarrow> world
     \<Rightarrow> int \<times> bytes \<times> bytes \<times> world" where
  "wc_AesGcmEncrypt e aes inp sz ivp ivSz authTagSz w =
     (let pt = take sz inp; nonce = take ivSz ivp in
      case aes_gcm_ret e (clock w) aes nonce pt of (r, cf, tf) \<Rightarrow>
        let ct = bytes_of cf sz; tg = bytes_of tf authTagSz
        in (r, ct, tg, log (Ev_AesGcmEncrypt aes nonce pt r ct tg) w))"

definition wc_AesFree :: "world \<Rightarrow> world" where
  "wc_AesFree w = log Ev_AesFree w"

text \<open>ECC of wolfCrypt. The context \<open>ecc_key\<close> is the encoded point that was imported.\<close>

definition wc_ecc_init :: "world \<Rightarrow> world" where
  "wc_ecc_init w = log Ev_ecc_init w"

definition wc_ecc_import_x963 :: "env \<Rightarrow> bytes \<Rightarrow> nat \<Rightarrow> world \<Rightarrow> int \<times> bytes \<times> world" where
  "wc_ecc_import_x963 e inp inLen w =
     (let k = take inLen inp; r = wc_ret e (clock w)
      in (r, k, log (Ev_ecc_import_x963 k r) w))"

definition wc_ecc_set_curve :: "env \<Rightarrow> world \<Rightarrow> int \<times> world" where
  "wc_ecc_set_curve e w = (let r = wc_ret e (clock w) in (r, log (Ev_ecc_set_curve r) w))"

text \<open>Returns the return code and the value of \<open>verify_res\<close> after the call.\<close>

definition wc_ecc_verify_hash ::
  "env \<Rightarrow> bytes \<Rightarrow> nat \<Rightarrow> bytes \<Rightarrow> nat \<Rightarrow> bytes \<Rightarrow> world \<Rightarrow> int \<times> int \<times> world" where
  "wc_ecc_verify_hash e sg siglen hash hashlen key w =
     (let s = take siglen sg; h = take hashlen hash in
      case ecc_verify_ret e (clock w) s h key of (r, res) \<Rightarrow>
        (r, res, log (Ev_ecc_verify_hash s h key r res) w))"

definition wc_ecc_free :: "world \<Rightarrow> world" where
  "wc_ecc_free w = log Ev_ecc_free w"

section \<open>The functions of PROJECT.c\<close>

definition Error_Handler :: "world \<Rightarrow> outcome" where
  "Error_Handler w = Halted (log Ev_disable_irq w)"

definition generate_and_store_keypair :: "env \<Rightarrow> world \<Rightarrow> ATCA_STATUS \<times> world" where
  "generate_and_store_keypair e w =
     (case atcab_genkey e DEVICE_KEY_SLOT (device_pubkey w) w of
        (st, pk, w1) \<Rightarrow> (st, w1\<lparr>device_pubkey := pk\<rparr>))"

text \<open>
  \<open>receive_data\<close> and \<open>send_data\<close> work on the peer link \<open>huart2\<close>. \<open>receive_data\<close> returns
  the new content of the buffer it was given; the caller stores it where the buffer lives.
\<close>

definition receive_data :: "env \<Rightarrow> bytes \<Rightarrow> nat \<Rightarrow> world \<Rightarrow> ATCA_STATUS \<times> bytes \<times> world" where
  "receive_data e buf len w =
     (case HAL_UART_Receive e huart2 buf len w of
        (st, buf', w1) \<Rightarrow> (if st = HAL_OK then ATCA_SUCCESS else ATCA_RX_FAIL, buf', w1))"

definition send_data :: "env \<Rightarrow> bytes \<Rightarrow> nat \<Rightarrow> world \<Rightarrow> ATCA_STATUS \<times> world" where
  "send_data e buf len w =
     (case HAL_UART_Transmit e huart2 buf len w of
        (st, w1) \<Rightarrow> (if st = HAL_OK then ATCA_SUCCESS else ATCA_TX_FAIL, w1))"

definition derive_shared_secret :: "env \<Rightarrow> world \<Rightarrow> ATCA_STATUS \<times> world" where
  "derive_shared_secret e w =
     (case atcab_ecdh e DEVICE_KEY_SLOT (peer_pubkey w) w of (status, shared_secret, w1) \<Rightarrow>
      if status \<noteq> ATCA_SUCCESS then (status, w1) else
      case wc_InitSha256 e w1 of (r1, sha1, w2) \<Rightarrow>
      if r1 \<noteq> 0 then (ATCA_GEN_FAIL, w2) else
      case wc_Sha256Update e sha1 shared_secret 32 w2 of (r2, sha2, w3) \<Rightarrow>
      if r2 \<noteq> 0 then (ATCA_GEN_FAIL, w3) else
      case wc_Sha256Final e sha2 w3 of (r3, hash, w4) \<Rightarrow>
      if r3 \<noteq> 0 then (ATCA_GEN_FAIL, w4) else
      (ATCA_SUCCESS, w4\<lparr>aes_key := memcpy_at (aes_key w4) 0 hash AES_KEY_SIZE\<rparr>))"

text \<open>
  The bytes of \<open>rnd\<close> in memory, lowest address first: the STM32G4 (Cortex-M4) is
  little-endian.
\<close>

definition word_bytes :: "32 word \<Rightarrow> bytes" where
  "word_bytes r =
     [ucast r, ucast (drop_bit 8 r), ucast (drop_bit 16 r), ucast (drop_bit 24 r)]"

text \<open>
  The loop of \<open>generate_random\<close>, from the counter \<open>i\<close>. The status of the generator is
  dropped, as in the source. The counter is a \<open>size_t\<close>; it stays below \<open>len + 4\<close>, so it
  does not wrap for \<open>len < 2 ^ 32 - 3\<close> (the program passes 32 and 12).
\<close>

function generate_random_loop :: "env \<Rightarrow> nat \<Rightarrow> nat \<Rightarrow> bytes \<Rightarrow> world \<Rightarrow> bytes \<times> world" where
  "generate_random_loop e i len buf w =
     (if i < len then
        (case HAL_RNG_GenerateRandomNumber e w of (st, rnd, w1) \<Rightarrow>
           generate_random_loop e (i + 4) len
             (memcpy_at buf i (word_bytes rnd) (if len - i \<ge> 4 then 4 else len - i)) w1)
      else (buf, w))"
  by pat_completeness auto
termination
  by (relation "measure (\<lambda>(e, i, len, buf, w). len - i)") auto

definition generate_random :: "env \<Rightarrow> bytes \<Rightarrow> nat \<Rightarrow> world \<Rightarrow> bytes \<times> world" where
  "generate_random e buf len w = generate_random_loop e 0 len buf w"

text \<open>
  \<open>encrypt_message\<close> returns the return code, the bytes written to \<open>ciphertext\<close>, the bytes
  written to \<open>tag\<close> and the new state. It reads the globals \<open>aes_key\<close> and \<open>iv\<close>. On a
  failure before the encryption nothing is written to the two buffers.
\<close>

definition encrypt_message ::
  "env \<Rightarrow> bytes \<Rightarrow> nat \<Rightarrow> world \<Rightarrow> int \<times> bytes \<times> bytes \<times> world" where
  "encrypt_message e plaintext len w =
     (case wc_AesInit e w of (r0, w1) \<Rightarrow>
      if r0 \<noteq> 0 then (- 1, [], [], w1) else
      case wc_AesGcmSetKey e (aes_key w1) AES_KEY_SIZE w1 of (r1, aes, w2) \<Rightarrow>
      if r1 \<noteq> 0 then (- 1, [], [], wc_AesFree w2) else
      case wc_AesGcmEncrypt e aes plaintext len (iv w2) AES_IV_SIZE AES_TAG_SIZE w2 of
        (ret, ct, tg, w3) \<Rightarrow> (ret, ct, tg, wc_AesFree w3))"

definition sign_message :: "env \<Rightarrow> bytes \<Rightarrow> nat \<Rightarrow> world \<Rightarrow> ATCA_STATUS \<times> bytes \<times> world" where
  "sign_message e msg msg_len w =
     (case wc_InitSha256 e w of (r1, sha1, w1) \<Rightarrow>
      if r1 \<noteq> 0 then (ATCA_GEN_FAIL, [], w1) else
      case wc_Sha256Update e sha1 msg msg_len w1 of (r2, sha2, w2) \<Rightarrow>
      if r2 \<noteq> 0 then (ATCA_GEN_FAIL, [], w2) else
      case wc_Sha256Final e sha2 w2 of (r3, hash, w3) \<Rightarrow>
      if r3 \<noteq> 0 then (ATCA_GEN_FAIL, [], w3) else
      atcab_sign e DEVICE_KEY_SLOT hash w3)"

definition verify_peer_public_key :: "env \<Rightarrow> world \<Rightarrow> ATCA_STATUS \<times> world" where
  "verify_peer_public_key e w =
     (case receive_data e [] SIGNATURE_SIZE w of (s0, peer_signature, w1) \<Rightarrow>
      if s0 \<noteq> ATCA_SUCCESS then (ATCA_RX_FAIL, w1) else
      case wc_InitSha256 e w1 of (r1, sha1, w2) \<Rightarrow>
      if r1 \<noteq> 0 then (ATCA_GEN_FAIL, w2) else
      case wc_Sha256Update e sha1 (challenge w2) CHALLENGE_SIZE w2 of (r2, sha2, w3) \<Rightarrow>
      if r2 \<noteq> 0 then (ATCA_GEN_FAIL, w3) else
      case wc_Sha256Final e sha2 w3 of (r3, hash, w4) \<Rightarrow>
      if r3 \<noteq> 0 then (ATCA_GEN_FAIL, w4) else
      let w5 = wc_ecc_init w4 in
      case wc_ecc_import_x963 e (peer_pubkey w5) PUB_KEY_SIZE w5 of (r4, key, w6) \<Rightarrow>
      if r4 \<noteq> 0 then (ATCA_FUNC_FAIL, wc_ecc_free w6) else
      case wc_ecc_set_curve e w6 of (r5, w7) \<Rightarrow>
      if r5 \<noteq> 0 then (ATCA_FUNC_FAIL, wc_ecc_free w7) else
      case wc_ecc_verify_hash e peer_signature SIGNATURE_SIZE hash 32 key w7 of
        (ret, verify_res, w8) \<Rightarrow>
          (if ret = 0 \<and> verify_res = 1 then ATCA_SUCCESS else ATCA_FUNC_FAIL, wc_ecc_free w8))"

definition perform_key_exchange :: "env \<Rightarrow> world \<Rightarrow> ATCA_STATUS \<times> world" where
  "perform_key_exchange e w =
     (case send_data e (device_pubkey w) PUB_KEY_SIZE w of (s1, w1) \<Rightarrow>
      if s1 \<noteq> ATCA_SUCCESS then (ATCA_TX_FAIL, w1) else
      case receive_data e (peer_pubkey w1) PUB_KEY_SIZE w1 of (s2, pk, w2) \<Rightarrow>
      let w2 = w2\<lparr>peer_pubkey := pk\<rparr> in
      if s2 \<noteq> ATCA_SUCCESS then (ATCA_RX_FAIL, w2) else
      case generate_random e (challenge w2) CHALLENGE_SIZE w2 of (ch, w3) \<Rightarrow>
      let w3 = w3\<lparr>challenge := ch\<rparr> in
      case send_data e (challenge w3) CHALLENGE_SIZE w3 of (s3, w4) \<Rightarrow>
      if s3 \<noteq> ATCA_SUCCESS then (ATCA_TX_FAIL, w4) else
      case verify_peer_public_key e w4 of (s4, w5) \<Rightarrow>
      if s4 \<noteq> ATCA_SUCCESS then (ATCA_FUNC_FAIL, w5) else
      case receive_data e (peer_challenge w5) CHALLENGE_SIZE w5 of (s5, pc, w6) \<Rightarrow>
      let w6 = w6\<lparr>peer_challenge := pc\<rparr> in
      if s5 \<noteq> ATCA_SUCCESS then (ATCA_RX_FAIL, w6) else
      case sign_message e (peer_challenge w6) CHALLENGE_SIZE w6 of (s6, signature, w7) \<Rightarrow>
      if s6 \<noteq> ATCA_SUCCESS then (ATCA_GEN_FAIL, w7) else
      case send_data e signature SIGNATURE_SIZE w7 of (s7, w8) \<Rightarrow>
      if s7 \<noteq> ATCA_SUCCESS then (ATCA_TX_FAIL, w8) else
      derive_shared_secret e w8)"

text \<open>The prompt of \<open>receive_user_input\<close>, 32 characters.\<close>

definition prompt :: bytes where
  "prompt = map (\<lambda>c. of_nat (of_char c)) ''Enter message (max 128 chars):'' @ [13, 10]"

text \<open>
  The loop of \<open>receive_user_input\<close>, from the index \<open>idx\<close>. \<open>ch\<close> is the local the received
  character is written to; the character 13 is \<open>'\r'\<close> and 10 is \<open>'\n'\<close>. The status of the
  echo is dropped, as in the source.
\<close>

function receive_user_input_loop :: "env \<Rightarrow> byte \<Rightarrow> nat \<Rightarrow> world \<Rightarrow> int \<times> world" where
  "receive_user_input_loop e ch idx w =
     (if idx < RX_BUFFER_SIZE - 1 then
        (case HAL_UART_Receive e huart1 [ch] 1 w of (st, chbuf, w1) \<Rightarrow>
           if st \<noteq> HAL_OK then (- 1, w1) else
           let ch' = (case chbuf of [] \<Rightarrow> ch | c # _ \<Rightarrow> c) in
           if ch' = 13 \<or> ch' = 10 then (int idx, w1) else
           case HAL_UART_Transmit e huart1 [ch'] 1 w1 of (_, w2) \<Rightarrow>
             receive_user_input_loop e ch' (idx + 1)
               (w2\<lparr>rx_buffer := (rx_buffer w2)[idx := ch']\<rparr>))
      else (int idx, w))"
  by pat_completeness auto
termination
  by (relation "measure (\<lambda>(e, ch, idx, w). RX_BUFFER_SIZE - 1 - idx)") auto

text \<open>
  \<open>ch\<close> is not initialised in the source and is written by the first receive before it is
  read; the loop starts from 0 here.
\<close>

definition receive_user_input :: "env \<Rightarrow> world \<Rightarrow> int \<times> world" where
  "receive_user_input e w =
     (case HAL_UART_Transmit e huart1 prompt (length prompt) w of (_, w1) \<Rightarrow>
        receive_user_input_loop e 0 0
          (w1\<lparr>rx_buffer := memset (rx_buffer w1) 0 RX_BUFFER_SIZE\<rparr>))"

subsection \<open>Peripheral bring-up\<close>

text \<open>The pattern \<open>if (call(...) != HAL_OK) Error_Handler();\<close>.\<close>

definition hal_checked :: "env \<Rightarrow> hal_call \<Rightarrow> world \<Rightarrow> outcome" where
  "hal_checked e c w =
     (case hal_config e c w of (st, w1) \<Rightarrow>
        if st \<noteq> HAL_OK then Error_Handler w1 else Running w1)"

text \<open>Sequencing: a halted program runs nothing further.\<close>

fun and_then :: "outcome \<Rightarrow> (world \<Rightarrow> outcome) \<Rightarrow> outcome" where
  "and_then (Halted w) f = Halted w"
| "and_then (Running w) f = f w"

definition SystemClock_Config :: "env \<Rightarrow> world \<Rightarrow> outcome" where
  "SystemClock_Config e w =
     and_then (hal_checked e HAL_RCC_OscConfig
                 (snd (hal_config e HAL_PWREx_ControlVoltageScaling w)))
       (hal_checked e HAL_RCC_ClockConfig)"

definition MX_GPIO_Init :: "env \<Rightarrow> world \<Rightarrow> outcome" where
  "MX_GPIO_Init e w =
     (let w1 = snd (hal_config e HAL_RCC_GPIO_CLK_ENABLE w);
          w2 = snd (hal_config e HAL_RCC_GPIO_CLK_ENABLE w1);
          w3 = snd (hal_config e HAL_RCC_GPIO_CLK_ENABLE w2)
      in Running (snd (hal_config e HAL_RCC_GPIO_CLK_ENABLE w3)))"

definition MX_I2C1_Init :: "env \<Rightarrow> world \<Rightarrow> outcome" where
  "MX_I2C1_Init e w =
     and_then (and_then (hal_checked e HAL_I2C_Init w)
       (hal_checked e HAL_I2CEx_ConfigAnalogFilter))
       (hal_checked e HAL_I2CEx_ConfigDigitalFilter)"

definition MX_USART_UART_Init :: "env \<Rightarrow> uart \<Rightarrow> world \<Rightarrow> outcome" where
  "MX_USART_UART_Init e h w =
     and_then (and_then (and_then (hal_checked e (HAL_UART_Init h) w)
       (hal_checked e (HAL_UARTEx_SetTxFifoThreshold h)))
       (hal_checked e (HAL_UARTEx_SetRxFifoThreshold h)))
       (hal_checked e (HAL_UARTEx_DisableFifoMode h))"

definition MX_RNG_Init :: "env \<Rightarrow> world \<Rightarrow> outcome" where
  "MX_RNG_Init e w = hal_checked e HAL_RNG_Init w"

subsection \<open>\<open>main\<close>\<close>

text \<open>Lines 218 to 231: bring-up, secure element, key pair.\<close>

definition main_init :: "env \<Rightarrow> world \<Rightarrow> outcome" where
  "main_init e w =
     and_then (and_then (and_then (and_then (and_then (and_then (and_then
       (SystemClock_Config e (snd (hal_config e HAL_Init w)))
       (MX_GPIO_Init e))
       (MX_I2C1_Init e))
       (MX_USART_UART_Init e huart1))
       (MX_USART_UART_Init e huart2))
       (MX_RNG_Init e))
       (\<lambda>w1. case atcab_init e w1 of (st, w2) \<Rightarrow>
               if st \<noteq> ATCA_SUCCESS then Error_Handler w2 else Running w2))
       (\<lambda>w2. case generate_and_store_keypair e w2 of (st, w3) \<Rightarrow>
               if st \<noteq> ATCA_SUCCESS then Error_Handler w3 else Running w3)"

text \<open>
  Lines 233 to 239: the handshake loop, from the value of \<open>retries\<close>. \<open>Running\<close> is the
  exit of the loop, after a successful \<open>perform_key_exchange\<close>.
\<close>

function key_exchange_loop :: "env \<Rightarrow> nat \<Rightarrow> world \<Rightarrow> outcome" where
  "key_exchange_loop e retries w =
     (case perform_key_exchange e w of (st, w1) \<Rightarrow>
        if st \<noteq> ATCA_SUCCESS then
          (if retries + 1 \<ge> MAX_RETRIES then Error_Handler w1
           else key_exchange_loop e (retries + 1) (HAL_Delay 1000 w1))
        else Running w1)"
  by pat_completeness auto
termination
  by (relation "measure (\<lambda>(e, retries, w). MAX_RETRIES - retries)") auto

text \<open>
  Lines 245 to 268: one pass through the body of \<open>while (1)\<close>. \<open>encrypted\<close> and \<open>tag\<close> are
  locals of \<open>main\<close>; of \<open>encrypted\<close> the program only reads the \<open>len\<close> bytes the encryption
  has just written.
\<close>

definition messaging_iteration :: "env \<Rightarrow> world \<Rightarrow> outcome" where
  "messaging_iteration e w =
     (case receive_user_input e w of (len, w1) \<Rightarrow>
      if len \<le> 0 then Running w1 else
      case generate_random e (iv w1) AES_IV_SIZE w1 of (nonce, w2) \<Rightarrow>
      let w2 = w2\<lparr>iv := nonce\<rparr> in
      case encrypt_message e (rx_buffer w2) (nat len) w2 of (r, encrypted, tag, w3) \<Rightarrow>
      if r \<noteq> 0 then Error_Handler w3 else
      case send_data e (iv w3) AES_IV_SIZE w3 of (s1, w4) \<Rightarrow>
      if s1 \<noteq> ATCA_SUCCESS then Error_Handler w4 else
      case send_data e tag AES_TAG_SIZE w4 of (s2, w5) \<Rightarrow>
      if s2 \<noteq> ATCA_SUCCESS then Error_Handler w5 else
      case send_data e encrypted (nat len) w5 of (s3, w6) \<Rightarrow>
      if s3 \<noteq> ATCA_SUCCESS then Error_Handler w6 else
      case sign_message e (rx_buffer w6) (nat len) w6 of (s4, signature, w7) \<Rightarrow>
      if s4 \<noteq> ATCA_SUCCESS then Error_Handler w7 else
      case send_data e signature SIGNATURE_SIZE w7 of (s5, w8) \<Rightarrow>
      if s5 \<noteq> ATCA_SUCCESS then Error_Handler w8 else
      Running w8)"

text \<open>
  \<open>while (1)\<close> never ends: \<open>messaging_loop e n\<close> is the program after \<open>n\<close> passes through
  the body, or halted in \<open>Error_Handler\<close> before that.
\<close>

fun messaging_loop :: "env \<Rightarrow> nat \<Rightarrow> world \<Rightarrow> outcome" where
  "messaging_loop e 0 w = Running w"
| "messaging_loop e (Suc n) w = and_then (messaging_iteration e w) (messaging_loop e n)"

definition main :: "env \<Rightarrow> nat \<Rightarrow> world \<Rightarrow> outcome" where
  "main e n w =
     and_then (and_then (main_init e w) (key_exchange_loop e 0)) (messaging_loop e n)"

section \<open>Notions used in the statements\<close>

text \<open>The operations recorded between the state \<open>w\<close> and a later state \<open>w'\<close>.\<close>

definition new_events :: "world \<Rightarrow> world \<Rightarrow> event list" where
  "new_events w w' = drop (length (trace w)) (trace w')"

text \<open>
  An operation has failed when its status is not the success value of its library; a
  signature check has failed unless the call returned 0 and set \<open>verify_res\<close> to 1.
\<close>

fun failed :: "event \<Rightarrow> bool" where
  "failed (Ev_UART_Transmit h d n st) = (st \<noteq> HAL_OK)"
| "failed (Ev_UART_Receive h n st d) = (st \<noteq> HAL_OK)"
| "failed (Ev_RNG st r) = (st \<noteq> HAL_OK)"
| "failed (Ev_HAL c st) = (st \<noteq> HAL_OK)"
| "failed (Ev_atcab_init st) = (st \<noteq> ATCA_SUCCESS)"
| "failed (Ev_atcab_genkey slot st k) = (st \<noteq> ATCA_SUCCESS)"
| "failed (Ev_atcab_ecdh slot pk st s) = (st \<noteq> ATCA_SUCCESS)"
| "failed (Ev_atcab_sign slot d st s) = (st \<noteq> ATCA_SUCCESS)"
| "failed (Ev_InitSha256 r) = (r \<noteq> 0)"
| "failed (Ev_Sha256Update d r) = (r \<noteq> 0)"
| "failed (Ev_Sha256Final m r h) = (r \<noteq> 0)"
| "failed (Ev_AesInit r) = (r \<noteq> 0)"
| "failed (Ev_AesGcmSetKey k r) = (r \<noteq> 0)"
| "failed (Ev_AesGcmEncrypt k n p r c t) = (r \<noteq> 0)"
| "failed (Ev_ecc_import_x963 k r) = (r \<noteq> 0)"
| "failed (Ev_ecc_set_curve r) = (r \<noteq> 0)"
| "failed (Ev_ecc_verify_hash s h k r res) = (\<not> (r = 0 \<and> res = 1))"
| "failed _ = False"

text \<open>
  The values and the records of the \<open>n\<close> calls of the random number generator that
  start at call number \<open>t\<close>.
\<close>

definition rng_words :: "env \<Rightarrow> nat \<Rightarrow> nat \<Rightarrow> 32 word list" where
  "rng_words e t n = map (\<lambda>k. snd (rng_ret e (t + k))) [0..<n]"

definition rng_events :: "env \<Rightarrow> nat \<Rightarrow> nat \<Rightarrow> event list" where
  "rng_events e t n =
     map (\<lambda>k. Ev_RNG (fst (rng_ret e (t + k))) (snd (rng_ret e (t + k)))) [0..<n]"

text \<open>The values the random number generator delivered, in the order of the calls.\<close>

fun rng_values :: "event list \<Rightarrow> 32 word list" where
  "rng_values [] = []"
| "rng_values (Ev_RNG st r # evs) = r # rng_values evs"
| "rng_values (ev # evs) = rng_values evs"

text \<open>The global buffers have the sizes of their declarations.\<close>

definition buffers_sized :: "world \<Rightarrow> bool" where
  "buffers_sized w \<longleftrightarrow>
     length (device_pubkey w) = PUB_KEY_SIZE \<and> length (peer_pubkey w) = PUB_KEY_SIZE
     \<and> length (aes_key w) = AES_KEY_SIZE \<and> length (rx_buffer w) = RX_BUFFER_SIZE
     \<and> length (iv w) = AES_IV_SIZE \<and> length (challenge w) = CHALLENGE_SIZE
     \<and> length (peer_challenge w) = CHALLENGE_SIZE"

text \<open>
  The steps of the handshake that the ordering is about: the operations on the peer link,
  the check of the peer's signature, the signing in the secure element and the ECDH.
\<close>

fun handshake_step :: "event \<Rightarrow> bool" where
  "handshake_step (Ev_UART_Transmit h d n st) = (h = huart2)"
| "handshake_step (Ev_UART_Receive h n st d) = (h = huart2)"
| "handshake_step (Ev_ecc_verify_hash s h k r res) = True"
| "handshake_step (Ev_atcab_sign slot d st s) = True"
| "handshake_step (Ev_atcab_ecdh slot pk st s) = True"
| "handshake_step _ = False"

text \<open>The failures of the check of the peer: key import, curve set-up, signature check.\<close>

fun auth_failure :: "event \<Rightarrow> bool" where
  "auth_failure (Ev_ecc_import_x963 k r) = (r \<noteq> 0)"
| "auth_failure (Ev_ecc_set_curve r) = (r \<noteq> 0)"
| "auth_failure (Ev_ecc_verify_hash s h k r res) = (\<not> (r = 0 \<and> res = 1))"
| "auth_failure _ = False"

subsection \<open>Example inputs\<close>

text \<open>
  The state at reset: C initialises the global buffers to zero. And an environment in
  which every call succeeds; the console delivers the character \<open>P\<close> and then a
  carriage return.
\<close>

definition boot_world :: world where
  "boot_world =
     \<lparr>device_pubkey = replicate 64 0, peer_pubkey = replicate 64 0,
      aes_key = replicate 16 0, rx_buffer = replicate 128 0, iv = replicate 12 0,
      challenge = replicate 32 0, peer_challenge = replicate 32 0,
      clock = 0, trace = []\<rparr>"

definition env_ok :: env where
  "env_ok =
     \<lparr>uart_tx_ret = (\<lambda>t h d. HAL_OK),
      uart_rx_ret = (\<lambda>t h n. (HAL_OK, \<lambda>i. if h = huart1 \<and> t \<noteq> 1 then 13 else 80)),
      rng_ret = (\<lambda>t. (HAL_OK, of_nat t)),
      hal_ret = (\<lambda>t c. HAL_OK),
      atcab_init_ret = (\<lambda>t. ATCA_SUCCESS),
      atcab_genkey_ret = (\<lambda>t slot. (ATCA_SUCCESS, \<lambda>i. 1)),
      atcab_ecdh_ret = (\<lambda>t slot pk. (ATCA_SUCCESS, \<lambda>i. 2)),
      atcab_sign_ret = (\<lambda>t slot d. (ATCA_SUCCESS, \<lambda>i. 3)),
      wc_ret = (\<lambda>t. 0),
      sha256_byte = (\<lambda>m i. of_nat (length m)),
      aes_gcm_ret = (\<lambda>t k n p. (0, \<lambda>i. 4, \<lambda>i. 5)),
      ecc_verify_ret = (\<lambda>t s h k. (0, 1))\<rparr>"


text \<open>The same environment with a peer whose signature does not verify.\<close>

definition env_bad_sig :: env where
  "env_bad_sig = env_ok\<lparr>ecc_verify_ret := (\<lambda>t s h k. (0, 0))\<rparr>"

section \<open>Basic facts\<close>

lemmas sizes =
  PUB_KEY_SIZE_def AES_KEY_SIZE_def AES_IV_SIZE_def AES_TAG_SIZE_def SIGNATURE_SIZE_def
  RX_BUFFER_SIZE_def CHALLENGE_SIZE_def MAX_RETRIES_def DEVICE_KEY_SLOT_def

lemmas calls =
  HAL_UART_Transmit_def HAL_UART_Receive_def HAL_RNG_GenerateRandomNumber_def HAL_Delay_def
  hal_config_def atcab_init_def atcab_genkey_def atcab_ecdh_def atcab_sign_def
  wc_InitSha256_def wc_Sha256Update_def wc_Sha256Final_def wc_AesInit_def wc_AesGcmSetKey_def
  wc_AesGcmEncrypt_def wc_AesFree_def wc_ecc_init_def wc_ecc_import_x963_def
  wc_ecc_set_curve_def wc_ecc_verify_hash_def wc_ecc_free_def log_def

lemma length_bytes_of [simp]: "length (bytes_of f n) = n"
  by (simp add: bytes_of_def)

lemma length_SHA256 [simp]: "length (SHA256 e m) = 32"
  by (simp add: SHA256_def)

lemma length_word_bytes [simp]: "length (word_bytes r) = 4"
  by (simp add: word_bytes_def)

section \<open>The random bytes\<close>

declare generate_random_loop.simps [simp del]

lemma rng_words_Suc: "rng_words e t (Suc n) = snd (rng_ret e t) # rng_words e (Suc t) n"
  by (simp add: rng_words_def upt_conv_Cons map_Suc_upt[symmetric] del: upt_Suc)

lemma rng_events_Suc:
  "rng_events e t (Suc n)
     = Ev_RNG (fst (rng_ret e t)) (snd (rng_ret e t)) # rng_events e (Suc t) n"
  by (simp add: rng_events_def upt_conv_Cons map_Suc_upt[symmetric] del: upt_Suc)

lemma length_rng_events [simp]: "length (rng_events e t n) = n"
  by (simp add: rng_events_def)

lemma length_rng_words [simp]: "length (rng_words e t n) = n"
  by (simp add: rng_words_def)

lemma rng_values_rng_events [simp]: "rng_values (rng_events e t n) = rng_words e t n"
proof (induction n arbitrary: t)
  case 0
  show ?case by (simp add: rng_events_def rng_words_def)
next
  case (Suc n)
  then show ?case by (simp add: rng_events_Suc rng_words_Suc)
qed

lemma length_concat_word_bytes [simp]: "length (concat (map word_bytes ws)) = 4 * length ws"
  by (induction ws) simp_all

text \<open>
  The loop from the counter \<open>i\<close>: it calls the generator once for every four bytes that
  remain, keeps the bytes below \<open>i\<close> and from \<open>len\<close> on, and writes the values in between.
\<close>

lemma generate_random_loop_closed:
  "i \<le> len \<Longrightarrow> i \<le> length buf \<Longrightarrow>
   generate_random_loop e i len buf w =
     (take i buf
        @ take (len - i) (concat (map word_bytes (rng_words e (clock w) ((len - i + 3) div 4))))
        @ drop len buf,
      w\<lparr>clock := clock w + (len - i + 3) div 4,
        trace := trace w @ rng_events e (clock w) ((len - i + 3) div 4)\<rparr>)"
proof (induction e i len buf w rule: generate_random_loop.induct)
  case (1 e i len buf w)
  show ?case
  proof (cases "i < len")
    case False
    with "1.prems" have "i = len" by simp
    then show ?thesis using "1.prems"
      by (subst generate_random_loop.simps) (simp add: rng_words_def rng_events_def)
  next
    case True
    obtain st rnd w1 where h: "HAL_RNG_GenerateRandomNumber e w = (st, rnd, w1)"
      by (cases "HAL_RNG_GenerateRandomNumber e w") auto
    then have w1: "w1 = log (Ev_RNG st rnd) w" and r: "rng_ret e (clock w) = (st, rnd)"
      by (auto simp: HAL_RNG_GenerateRandomNumber_def split: prod.splits)
    show ?thesis
    proof (cases "i + 4 \<le> len")
      case big: True
      then have n: "(len - i + 3) div 4 = Suc ((len - (i + 4) + 3) div 4)" by arith
      have m4: "4 \<le> len - i" using big by arith
      let ?b = "memcpy_at buf i (word_bytes rnd) (if 4 \<le> len - i then 4 else len - i)"
      have lb: "i + 4 \<le> length ?b" using big "1.prems" m4 by (simp add: memcpy_at_def)
      have IH: "generate_random_loop e (i + 4) len ?b w1 =
        (take (i + 4) ?b
           @ take (len - (i + 4))
               (concat (map word_bytes (rng_words e (clock w1) ((len - (i + 4) + 3) div 4))))
           @ drop len ?b,
         w1\<lparr>clock := clock w1 + (len - (i + 4) + 3) div 4,
            trace := trace w1 @ rng_events e (clock w1) ((len - (i + 4) + 3) div 4)\<rparr>)"
        using "1.IH" [OF True h [symmetric] refl big lb] .
      have t: "take (i + 4) ?b = take i buf @ word_bytes rnd"
        using big "1.prems" m4 by (simp add: memcpy_at_def min_def)
      have d: "drop len ?b = drop len buf"
        using big "1.prems" m4 by (simp add: memcpy_at_def min_def)
      have step: "generate_random_loop e i len buf w = generate_random_loop e (i + 4) len ?b w1"
        by (subst generate_random_loop.simps) (simp add: True h)
      have c1: "clock w1 = Suc (clock w)" and t1: "trace w1 = trace w @ [Ev_RNG st rnd]"
        by (simp_all add: w1 log_def)
      have tk: "take (len - i) (word_bytes rnd) = word_bytes rnd"
        by (rule take_all) (simp add: m4)
      show ?thesis
        unfolding step IH t d n rng_words_Suc rng_events_Suc r c1 t1
        by (simp add: tk w1 log_def)
    next
      case small: False
      then have n: "(len - i + 3) div 4 = Suc 0" using True by arith
      have m: "\<not> 4 \<le> len - i" using small by arith
      let ?b = "memcpy_at buf i (word_bytes rnd) (len - i)"
      have step: "generate_random_loop e i len buf w = generate_random_loop e (i + 4) len ?b w1"
        by (subst generate_random_loop.simps) (simp add: True h m)
      have stop: "generate_random_loop e (i + 4) len ?b w1 = (?b, w1)"
        using small by (subst generate_random_loop.simps) simp
      have b: "?b = take i buf @ take (len - i) (word_bytes rnd) @ drop len buf"
        using True by (simp add: memcpy_at_def)
      show ?thesis
        unfolding step stop
        unfolding n rng_words_Suc rng_events_Suc r b
        by (simp add: w1 log_def rng_words_def rng_events_def)
    qed
  qed
qed

lemma generate_random_closed:
  "generate_random e buf len w =
     (take len (concat (map word_bytes (rng_words e (clock w) ((len + 3) div 4)))) @ drop len buf,
      w\<lparr>clock := clock w + (len + 3) div 4,
        trace := trace w @ rng_events e (clock w) ((len + 3) div 4)\<rparr>)"
  by (simp add: generate_random_def generate_random_loop_closed)

lemma generate_random_32:
  "generate_random e buf 32 w =
     (concat (map word_bytes (rng_words e (clock w) 8)) @ drop 32 buf,
      w\<lparr>clock := clock w + 8, trace := trace w @ rng_events e (clock w) 8\<rparr>)"
  by (simp add: generate_random_closed)

lemma generate_random_12:
  "generate_random e buf 12 w =
     (concat (map word_bytes (rng_words e (clock w) 3)) @ drop 12 buf,
      w\<lparr>clock := clock w + 3, trace := trace w @ rng_events e (clock w) 3\<rparr>)"
  by (simp add: generate_random_closed)

lemma rng_words_cong:
  "(\<And>t. snd (rng_ret e' t) = snd (rng_ret e t)) \<Longrightarrow> rng_words e' t n = rng_words e t n"
  by (simp add: rng_words_def)



section \<open>Session key derivation\<close>

text \<open>
  Claim C2. \<open>derive_shared_secret\<close> succeeds exactly when neither the ECDH call nor any of
  the three SHA-256 steps fails. When it succeeds, the secure element has computed a
  32-byte shared secret from the device key slot and the stored peer public key, and
  \<open>aes_key\<close> is the first 16 bytes of SHA-256 of that secret. When it fails, it returns an
  error status and \<open>aes_key\<close> keeps its old value. \<open>aes_key\<close> has its declared size of 16
  bytes.
\<close>

theorem derive_shared_secret_key:
  assumes "derive_shared_secret e w = (st, w')" and "length (aes_key w) = AES_KEY_SIZE"
  shows "(st = ATCA_SUCCESS \<longleftrightarrow> (\<forall>ev \<in> set (new_events w w'). \<not> failed ev))
       \<and> (st = ATCA_SUCCESS \<longrightarrow>
            (\<exists>secret. Ev_atcab_ecdh DEVICE_KEY_SLOT (take PUB_KEY_SIZE (peer_pubkey w))
                          ATCA_SUCCESS secret \<in> set (new_events w w')
                    \<and> length secret = 32
                    \<and> aes_key w' = take AES_KEY_SIZE (SHA256 e secret)))
       \<and> (st \<noteq> ATCA_SUCCESS \<longrightarrow> aes_key w' = aes_key w)"
  using assms
  by (auto simp: derive_shared_secret_def calls sizes new_events_def Let_def memcpy_at_def
           split: prod.splits if_splits)

theorem derive_shared_secret_key_witness:
  "derive_shared_secret env_ok boot_world
     = (ATCA_SUCCESS, snd (derive_shared_secret env_ok boot_world))
   \<and> length (aes_key boot_world) = AES_KEY_SIZE
   \<and> aes_key (snd (derive_shared_secret env_ok boot_world))
       = take AES_KEY_SIZE (SHA256 env_ok (replicate 32 2))"
proof -
  have h1: "derive_shared_secret env_ok boot_world
              = (ATCA_SUCCESS, snd (derive_shared_secret env_ok boot_world))"
    by (simp add: derive_shared_secret_def calls sizes env_ok_def boot_world_def Let_def
          prod_eq_iff)
  have h2: "length (aes_key boot_world) = AES_KEY_SIZE"
    by (simp add: boot_world_def sizes)
  have ev: "new_events boot_world (snd (derive_shared_secret env_ok boot_world)) ! 0
              = Ev_atcab_ecdh 0 (replicate 64 0) ATCA_SUCCESS (replicate 32 2)"
    by (simp add: derive_shared_secret_def calls sizes env_ok_def boot_world_def Let_def
          new_events_def bytes_of_def map_replicate_const)
  have len: "length (new_events boot_world (snd (derive_shared_secret env_ok boot_world))) = 4"
    by (simp add: derive_shared_secret_def calls sizes env_ok_def boot_world_def Let_def
          new_events_def)
  from derive_shared_secret_key [OF h1 h2] obtain secret where
    s: "Ev_atcab_ecdh DEVICE_KEY_SLOT (take PUB_KEY_SIZE (peer_pubkey boot_world))
          ATCA_SUCCESS secret
          \<in> set (new_events boot_world (snd (derive_shared_secret env_ok boot_world)))"
    and k: "aes_key (snd (derive_shared_secret env_ok boot_world))
          = take AES_KEY_SIZE (SHA256 env_ok secret)"
    by blast
  have "aes_key (snd (derive_shared_secret env_ok boot_world))
          = take AES_KEY_SIZE (SHA256 env_ok (replicate 32 2))"
    by (simp add: derive_shared_secret_def calls sizes env_ok_def boot_world_def Let_def
          memcpy_at_def bytes_of_def map_replicate_const SHA256_def)
  with h1 h2 show ?thesis by simp
qed

section \<open>The handshake\<close>

lemma filter_handshake_step_rng [simp]: "filter handshake_step (rng_events e t n) = []"
  by (simp add: rng_events_def filter_empty_conv)

lemma rng_values_append [simp]: "rng_values (xs @ ys) = rng_values xs @ rng_values ys"
  by (induction xs rule: rng_values.induct) simp_all

lemma send_data_eq:
  "send_data e buf n w =
     (if uart_tx_ret e (clock w) huart2 (take n buf) = HAL_OK then ATCA_SUCCESS else ATCA_TX_FAIL,
      w\<lparr>clock := Suc (clock w),
        trace := trace w @ [Ev_UART_Transmit huart2 (take n buf) n
                              (uart_tx_ret e (clock w) huart2 (take n buf))]\<rparr>)"
  by (simp add: send_data_def calls Let_def)

lemma send_data_success:
  "send_data e buf n w = (ATCA_SUCCESS, w') \<Longrightarrow>
     w' = w\<lparr>clock := Suc (clock w),
            trace := trace w @ [Ev_UART_Transmit huart2 (take n buf) n HAL_OK]\<rparr>"
  by (auto simp: send_data_eq split: if_splits)

lemma receive_data_success:
  "receive_data e buf n w = (ATCA_SUCCESS, buf', w') \<Longrightarrow>
     \<exists>d. length d = n \<and> buf' = d @ drop n buf
       \<and> w' = w\<lparr>clock := Suc (clock w),
                 trace := trace w @ [Ev_UART_Receive huart2 n HAL_OK d]\<rparr>"
  by (auto simp: receive_data_def calls Let_def split: prod.splits if_splits)

lemma sign_message_success:
  "sign_message e msg n w = (ATCA_SUCCESS, sg, w') \<Longrightarrow>
     length sg = 64 \<and>
     w' = w\<lparr>clock := clock w + 4,
            trace := trace w @
              [Ev_InitSha256 0, Ev_Sha256Update (take n msg) 0,
               Ev_Sha256Final (take n msg) 0 (SHA256 e (take n msg)),
               Ev_atcab_sign DEVICE_KEY_SLOT (SHA256 e (take n msg)) ATCA_SUCCESS sg]\<rparr>"
  by (auto simp: sign_message_def calls Let_def split: prod.splits if_splits)

lemma verify_peer_public_key_success:
  "verify_peer_public_key e w = (ATCA_SUCCESS, w') \<Longrightarrow>
     \<exists>sg. length sg = 64 \<and>
     w' = w\<lparr>clock := clock w + 9,
            trace := trace w @
              [Ev_UART_Receive huart2 SIGNATURE_SIZE HAL_OK sg,
               Ev_InitSha256 0, Ev_Sha256Update (take 32 (challenge w)) 0,
               Ev_Sha256Final (take 32 (challenge w)) 0 (SHA256 e (take 32 (challenge w))),
               Ev_ecc_init, Ev_ecc_import_x963 (take 64 (peer_pubkey w)) 0, Ev_ecc_set_curve 0,
               Ev_ecc_verify_hash sg (SHA256 e (take 32 (challenge w)))
                 (take 64 (peer_pubkey w)) 0 1,
               Ev_ecc_free]\<rparr>"
  apply (auto simp: verify_peer_public_key_def receive_data_def calls sizes Let_def
           split: prod.splits if_splits)
  subgoal for f by (rule exI [of _ "bytes_of f 64"]) simp
  done

lemma derive_shared_secret_success:
  "derive_shared_secret e w = (ATCA_SUCCESS, w') \<Longrightarrow>
     \<exists>secret. length secret = 32 \<and>
     w' = w\<lparr>aes_key := take 16 (SHA256 e secret) @ drop 16 (aes_key w),
            clock := clock w + 4,
            trace := trace w @
              [Ev_atcab_ecdh DEVICE_KEY_SLOT (take 64 (peer_pubkey w)) ATCA_SUCCESS secret,
               Ev_InitSha256 0, Ev_Sha256Update secret 0,
               Ev_Sha256Final secret 0 (SHA256 e secret)]\<rparr>"
  apply (auto simp: derive_shared_secret_def calls sizes Let_def memcpy_at_def
           split: prod.splits if_splits)
  subgoal for f by (rule exI [of _ "bytes_of f 32"]) simp
  done

lemma perform_key_exchange_success:
  "perform_key_exchange e w = (ATCA_SUCCESS, w') \<Longrightarrow>
   \<exists>w1 pk w2 ch w3 w4 w5 pc w6 sg w7 w8.
     send_data e (device_pubkey w) PUB_KEY_SIZE w = (ATCA_SUCCESS, w1)
   \<and> receive_data e (peer_pubkey w1) PUB_KEY_SIZE w1 = (ATCA_SUCCESS, pk, w2)
   \<and> generate_random e (challenge w2) CHALLENGE_SIZE (w2\<lparr>peer_pubkey := pk\<rparr>) = (ch, w3)
   \<and> send_data e ch CHALLENGE_SIZE (w3\<lparr>challenge := ch\<rparr>) = (ATCA_SUCCESS, w4)
   \<and> verify_peer_public_key e w4 = (ATCA_SUCCESS, w5)
   \<and> receive_data e (peer_challenge w5) CHALLENGE_SIZE w5 = (ATCA_SUCCESS, pc, w6)
   \<and> sign_message e pc CHALLENGE_SIZE (w6\<lparr>peer_challenge := pc\<rparr>) = (ATCA_SUCCESS, sg, w7)
   \<and> send_data e sg SIGNATURE_SIZE w7 = (ATCA_SUCCESS, w8)
   \<and> derive_shared_secret e w8 = (ATCA_SUCCESS, w')"
  by (auto simp: perform_key_exchange_def Let_def split: prod.splits if_splits)


text \<open>
  The state after a successful handshake: the bytes received, the challenge made of the
  eight values of the generator, and the 30 operations of the run in their order.
\<close>

lemma perform_key_exchange_success_state:
  assumes "perform_key_exchange e w = (ATCA_SUCCESS, w')"
  shows "\<exists>d2 psg d6 sg secret.
    length d2 = 64 \<and> length psg = 64 \<and> length d6 = 32 \<and> length sg = 64
    \<and> length secret = 32
    \<and> (let ch = concat (map word_bytes (rng_words e (clock w + 2) 8)) in
    w' = w\<lparr>peer_pubkey := d2 @ drop 64 (peer_pubkey w),
      aes_key := take 16 (SHA256 e secret) @ drop 16 (aes_key w),
      challenge := ch @ drop 32 (challenge w), peer_challenge := d6 @ drop 32 (peer_challenge w),
      clock := clock w + 30,
      trace := trace w @ [Ev_UART_Transmit huart2 (take 64 (device_pubkey w)) 64 HAL_OK,
        Ev_UART_Receive huart2 64 HAL_OK d2]
        @ rng_events e (clock w + 2) 8 @
        [Ev_UART_Transmit huart2 ch 32 HAL_OK,
         Ev_UART_Receive huart2 64 HAL_OK psg,
         Ev_InitSha256 0,
         Ev_Sha256Update ch 0,
         Ev_Sha256Final ch 0 (SHA256 e ch),
         Ev_ecc_init,
         Ev_ecc_import_x963 d2 0,
         Ev_ecc_set_curve 0,
         Ev_ecc_verify_hash psg (SHA256 e ch) d2 0 1,
         Ev_ecc_free,
         Ev_UART_Receive huart2 32 HAL_OK d6,
         Ev_InitSha256 0,
         Ev_Sha256Update d6 0,
         Ev_Sha256Final d6 0 (SHA256 e d6),
         Ev_atcab_sign 0 (SHA256 e d6) ATCA_SUCCESS sg,
         Ev_UART_Transmit huart2 sg 64 HAL_OK,
         Ev_atcab_ecdh 0 d2 ATCA_SUCCESS secret,
         Ev_InitSha256 0,
         Ev_Sha256Update secret 0,
         Ev_Sha256Final secret 0 (SHA256 e secret)]\<rparr>)"
proof -
  from perform_key_exchange_success [OF assms]
  obtain w1 pk w2 ch w3 w4 w5 pc w6 sg w7 w8 where
    s1: "send_data e (device_pubkey w) PUB_KEY_SIZE w = (ATCA_SUCCESS, w1)" and
    s2: "receive_data e (peer_pubkey w1) PUB_KEY_SIZE w1 = (ATCA_SUCCESS, pk, w2)" and
    s3: "generate_random e (challenge w2) CHALLENGE_SIZE (w2\<lparr>peer_pubkey := pk\<rparr>) = (ch, w3)" and
    s4: "send_data e ch CHALLENGE_SIZE (w3\<lparr>challenge := ch\<rparr>) = (ATCA_SUCCESS, w4)" and
    s5: "verify_peer_public_key e w4 = (ATCA_SUCCESS, w5)" and
    s6: "receive_data e (peer_challenge w5) CHALLENGE_SIZE w5 = (ATCA_SUCCESS, pc, w6)" and
    s7: "sign_message e pc CHALLENGE_SIZE (w6\<lparr>peer_challenge := pc\<rparr>) = (ATCA_SUCCESS, sg, w7)" and
    s8: "send_data e sg SIGNATURE_SIZE w7 = (ATCA_SUCCESS, w8)" and
    s9: "derive_shared_secret e w8 = (ATCA_SUCCESS, w')"
    by blast
  define c where "c = concat (map word_bytes (rng_words e (clock w + 2) 8))"
  have lc: "length c = 32" by (simp add: c_def)
  note w1 = send_data_success [OF s1]
  from receive_data_success [OF s2] obtain d2 where
    d2: "length d2 = 64" and pk: "pk = d2 @ drop 64 (peer_pubkey w1)" and
    w2: "w2 = w1\<lparr>clock := Suc (clock w1),
                 trace := trace w1 @ [Ev_UART_Receive huart2 64 HAL_OK d2]\<rparr>"
    unfolding sizes by blast
  from s3 have ch: "ch = c @ drop 32 (challenge w)"
    and w3: "w3 = w2\<lparr>peer_pubkey := pk, clock := clock w2 + 8,
                   trace := trace w2 @ rng_events e (clock w2) 8\<rparr>"
    by (simp_all add: generate_random_32 sizes w2 w1 c_def)
  note w4 = send_data_success [OF s4]
  from verify_peer_public_key_success [OF s5] obtain psg where
    psg: "length psg = 64" and
    w5: "w5 = w4\<lparr>clock := clock w4 + 9,
            trace := trace w4 @
              [Ev_UART_Receive huart2 SIGNATURE_SIZE HAL_OK psg,
               Ev_InitSha256 0, Ev_Sha256Update (take 32 (challenge w4)) 0,
               Ev_Sha256Final (take 32 (challenge w4)) 0 (SHA256 e (take 32 (challenge w4))),
               Ev_ecc_init, Ev_ecc_import_x963 (take 64 (peer_pubkey w4)) 0, Ev_ecc_set_curve 0,
               Ev_ecc_verify_hash psg (SHA256 e (take 32 (challenge w4)))
                 (take 64 (peer_pubkey w4)) 0 1,
               Ev_ecc_free]\<rparr>"
    by blast
  from receive_data_success [OF s6] obtain d6 where
    d6: "length d6 = 32" and
    pc: "pc = d6 @ drop 32 (peer_challenge w5)" and
    w6: "w6 = w5\<lparr>clock := Suc (clock w5),
                 trace := trace w5 @ [Ev_UART_Receive huart2 32 HAL_OK d6]\<rparr>"
    unfolding sizes by blast
  from sign_message_success [OF s7] have sg: "length sg = 64" and
    w7: "w7 = w6\<lparr>peer_challenge := pc, clock := clock w6 + 4,
            trace := trace w6 @
              [Ev_InitSha256 0, Ev_Sha256Update (take 32 pc) 0,
               Ev_Sha256Final (take 32 pc) 0 (SHA256 e (take 32 pc)),
               Ev_atcab_sign 0 (SHA256 e (take 32 pc)) ATCA_SUCCESS sg]\<rparr>"
    unfolding sizes by simp_all
  note w8 = send_data_success [OF s8]
  from derive_shared_secret_success [OF s9] obtain secret where
    secret: "length secret = 32" and
    w': "w' = w8\<lparr>aes_key := take 16 (SHA256 e secret) @ drop 16 (aes_key w8),
            clock := clock w8 + 4,
            trace := trace w8 @
              [Ev_atcab_ecdh 0 (take 64 (peer_pubkey w8)) ATCA_SUCCESS secret,
               Ev_InitSha256 0, Ev_Sha256Update secret 0,
               Ev_Sha256Final secret 0 (SHA256 e secret)]\<rparr>"
    unfolding sizes by blast
  have W2: "w2 = w\<lparr>clock := clock w + 2,
      trace := trace w @ [Ev_UART_Transmit huart2 (take 64 (device_pubkey w)) 64 HAL_OK,
        Ev_UART_Receive huart2 64 HAL_OK d2]\<rparr>"
    by (simp add: w2 w1 sizes)
  have pk': "pk = d2 @ drop 64 (peer_pubkey w)" by (simp add: pk w1)
  have W3: "w3 = w\<lparr>peer_pubkey := d2 @ drop 64 (peer_pubkey w), clock := clock w + 10,
      trace := trace w @ [Ev_UART_Transmit huart2 (take 64 (device_pubkey w)) 64 HAL_OK,
        Ev_UART_Receive huart2 64 HAL_OK d2]
        @ rng_events e (clock w + 2) 8\<rparr>"
    by (simp add: w3 W2 pk')
  have W4: "w4 = w\<lparr>peer_pubkey := d2 @ drop 64 (peer_pubkey w), challenge := c @ drop 32 (challenge w),
      clock := clock w + 11,
      trace := trace w @ [Ev_UART_Transmit huart2 (take 64 (device_pubkey w)) 64 HAL_OK,
        Ev_UART_Receive huart2 64 HAL_OK d2]
        @ rng_events e (clock w + 2) 8 @
        [Ev_UART_Transmit huart2 c 32 HAL_OK]\<rparr>"
    using lc by (simp add: w4 W3 sizes ch)
  have W5: "w5 = w\<lparr>peer_pubkey := d2 @ drop 64 (peer_pubkey w), challenge := c @ drop 32 (challenge w),
      clock := clock w + 20,
      trace := trace w @ [Ev_UART_Transmit huart2 (take 64 (device_pubkey w)) 64 HAL_OK,
        Ev_UART_Receive huart2 64 HAL_OK d2]
        @ rng_events e (clock w + 2) 8 @
        [Ev_UART_Transmit huart2 c 32 HAL_OK,
         Ev_UART_Receive huart2 64 HAL_OK psg,
         Ev_InitSha256 0,
         Ev_Sha256Update c 0,
         Ev_Sha256Final c 0 (SHA256 e c),
         Ev_ecc_init,
         Ev_ecc_import_x963 d2 0,
         Ev_ecc_set_curve 0,
         Ev_ecc_verify_hash psg (SHA256 e c) d2 0 1,
         Ev_ecc_free]\<rparr>"
    using lc d2 by (simp add: w5 W4 sizes ch)
  have pc': "pc = d6 @ drop 32 (peer_challenge w)" by (simp add: pc W5)
  have W6: "w6 = w\<lparr>peer_pubkey := d2 @ drop 64 (peer_pubkey w), challenge := c @ drop 32 (challenge w),
      clock := clock w + 21,
      trace := trace w @ [Ev_UART_Transmit huart2 (take 64 (device_pubkey w)) 64 HAL_OK,
        Ev_UART_Receive huart2 64 HAL_OK d2]
        @ rng_events e (clock w + 2) 8 @
        [Ev_UART_Transmit huart2 c 32 HAL_OK,
         Ev_UART_Receive huart2 64 HAL_OK psg,
         Ev_InitSha256 0,
         Ev_Sha256Update c 0,
         Ev_Sha256Final c 0 (SHA256 e c),
         Ev_ecc_init,
         Ev_ecc_import_x963 d2 0,
         Ev_ecc_set_curve 0,
         Ev_ecc_verify_hash psg (SHA256 e c) d2 0 1,
         Ev_ecc_free,
         Ev_UART_Receive huart2 32 HAL_OK d6]\<rparr>"
    by (simp add: w6 W5)
  have W7: "w7 = w\<lparr>peer_pubkey := d2 @ drop 64 (peer_pubkey w), challenge := c @ drop 32 (challenge w),
      peer_challenge := d6 @ drop 32 (peer_challenge w),
      clock := clock w + 25,
      trace := trace w @ [Ev_UART_Transmit huart2 (take 64 (device_pubkey w)) 64 HAL_OK,
        Ev_UART_Receive huart2 64 HAL_OK d2]
        @ rng_events e (clock w + 2) 8 @
        [Ev_UART_Transmit huart2 c 32 HAL_OK,
         Ev_UART_Receive huart2 64 HAL_OK psg,
         Ev_InitSha256 0,
         Ev_Sha256Update c 0,
         Ev_Sha256Final c 0 (SHA256 e c),
         Ev_ecc_init,
         Ev_ecc_import_x963 d2 0,
         Ev_ecc_set_curve 0,
         Ev_ecc_verify_hash psg (SHA256 e c) d2 0 1,
         Ev_ecc_free,
         Ev_UART_Receive huart2 32 HAL_OK d6,
         Ev_InitSha256 0,
         Ev_Sha256Update d6 0,
         Ev_Sha256Final d6 0 (SHA256 e d6),
         Ev_atcab_sign 0 (SHA256 e d6) ATCA_SUCCESS sg]\<rparr>"
    using d6 by (simp add: w7 W6 pc' sizes)
  have W8: "w8 = w\<lparr>peer_pubkey := d2 @ drop 64 (peer_pubkey w), challenge := c @ drop 32 (challenge w),
      peer_challenge := d6 @ drop 32 (peer_challenge w),
      clock := clock w + 26,
      trace := trace w @ [Ev_UART_Transmit huart2 (take 64 (device_pubkey w)) 64 HAL_OK,
        Ev_UART_Receive huart2 64 HAL_OK d2]
        @ rng_events e (clock w + 2) 8 @
        [Ev_UART_Transmit huart2 c 32 HAL_OK,
         Ev_UART_Receive huart2 64 HAL_OK psg,
         Ev_InitSha256 0,
         Ev_Sha256Update c 0,
         Ev_Sha256Final c 0 (SHA256 e c),
         Ev_ecc_init,
         Ev_ecc_import_x963 d2 0,
         Ev_ecc_set_curve 0,
         Ev_ecc_verify_hash psg (SHA256 e c) d2 0 1,
         Ev_ecc_free,
         Ev_UART_Receive huart2 32 HAL_OK d6,
         Ev_InitSha256 0,
         Ev_Sha256Update d6 0,
         Ev_Sha256Final d6 0 (SHA256 e d6),
         Ev_atcab_sign 0 (SHA256 e d6) ATCA_SUCCESS sg,
         Ev_UART_Transmit huart2 sg 64 HAL_OK]\<rparr>"
    using sg by (simp add: w8 W7 sizes)
  have W9: "w' = w\<lparr>peer_pubkey := d2 @ drop 64 (peer_pubkey w),
      aes_key := take 16 (SHA256 e secret) @ drop 16 (aes_key w),
      challenge := c @ drop 32 (challenge w), peer_challenge := d6 @ drop 32 (peer_challenge w),
      clock := clock w + 30,
      trace := trace w @ [Ev_UART_Transmit huart2 (take 64 (device_pubkey w)) 64 HAL_OK,
        Ev_UART_Receive huart2 64 HAL_OK d2]
        @ rng_events e (clock w + 2) 8 @
        [Ev_UART_Transmit huart2 c 32 HAL_OK,
         Ev_UART_Receive huart2 64 HAL_OK psg,
         Ev_InitSha256 0,
         Ev_Sha256Update c 0,
         Ev_Sha256Final c 0 (SHA256 e c),
         Ev_ecc_init,
         Ev_ecc_import_x963 d2 0,
         Ev_ecc_set_curve 0,
         Ev_ecc_verify_hash psg (SHA256 e c) d2 0 1,
         Ev_ecc_free,
         Ev_UART_Receive huart2 32 HAL_OK d6,
         Ev_InitSha256 0,
         Ev_Sha256Update d6 0,
         Ev_Sha256Final d6 0 (SHA256 e d6),
         Ev_atcab_sign 0 (SHA256 e d6) ATCA_SUCCESS sg,
         Ev_UART_Transmit huart2 sg 64 HAL_OK,
         Ev_atcab_ecdh 0 d2 ATCA_SUCCESS secret,
         Ev_InitSha256 0,
         Ev_Sha256Update secret 0,
         Ev_Sha256Final secret 0 (SHA256 e secret)]\<rparr>"
    using d2 by (simp add: w' W8 sizes)
  show ?thesis
    apply (rule exI [of _ d2], rule exI [of _ psg], rule exI [of _ d6], rule exI [of _ sg],
        rule exI [of _ secret])
    using d2 psg d6 sg secret W9 [unfolded c_def]
    by (simp add: Let_def)
qed


text \<open>
  Claim C1. In a run of \<open>perform_key_exchange\<close> that returns \<open>ATCA_SUCCESS\<close>, from a state
  whose buffers have their declared sizes, the operations on the peer link are, in this
  order: send the 64-byte local public key, receive the 64-byte peer public key, send the
  32-byte challenge (the bytes the random number generator delivered in this run), receive
  the peer's 64-byte signature, receive the peer's 32-byte challenge, send the 64-byte
  signature that the secure element made of the SHA-256 digest of the peer's challenge.
  The check of the peer's signature comes after the local challenge is sent, and the ECDH
  comes after the answer to the peer's challenge is sent.
\<close>

theorem handshake_order:
  assumes "perform_key_exchange e w = (ATCA_SUCCESS, w')" and "buffers_sized w"
  shows "\<exists>peer_sig sig secret.
    filter handshake_step (new_events w w') =
      [Ev_UART_Transmit huart2 (device_pubkey w) PUB_KEY_SIZE HAL_OK,
       Ev_UART_Receive huart2 PUB_KEY_SIZE HAL_OK (peer_pubkey w'),
       Ev_UART_Transmit huart2 (challenge w') CHALLENGE_SIZE HAL_OK,
       Ev_UART_Receive huart2 SIGNATURE_SIZE HAL_OK peer_sig,
       Ev_ecc_verify_hash peer_sig (SHA256 e (challenge w')) (peer_pubkey w') 0 1,
       Ev_UART_Receive huart2 CHALLENGE_SIZE HAL_OK (peer_challenge w'),
       Ev_atcab_sign DEVICE_KEY_SLOT (SHA256 e (peer_challenge w')) ATCA_SUCCESS sig,
       Ev_UART_Transmit huart2 sig SIGNATURE_SIZE HAL_OK,
       Ev_atcab_ecdh DEVICE_KEY_SLOT (peer_pubkey w') ATCA_SUCCESS secret]
    \<and> length peer_sig = SIGNATURE_SIZE \<and> length sig = SIGNATURE_SIZE
    \<and> challenge w' = concat (map word_bytes (rng_values (new_events w w')))
    \<and> device_pubkey w' = device_pubkey w
    \<and> buffers_sized w'"
proof -
  note sz = assms(2) [unfolded buffers_sized_def sizes]
  from perform_key_exchange_success_state [OF assms(1)]
  obtain d2 psg d6 sg secret where
    len: "length d2 = 64" "length psg = 64" "length d6 = 32" "length sg = 64"
      "length secret = 32" and
    W: "w' = w\<lparr>peer_pubkey := d2 @ drop 64 (peer_pubkey w),
      aes_key := take 16 (SHA256 e secret) @ drop 16 (aes_key w),
      challenge := concat (map word_bytes (rng_words e (clock w + 2) 8)) @ drop 32 (challenge w), peer_challenge := d6 @ drop 32 (peer_challenge w),
      clock := clock w + 30,
      trace := trace w @ [Ev_UART_Transmit huart2 (take 64 (device_pubkey w)) 64 HAL_OK,
        Ev_UART_Receive huart2 64 HAL_OK d2]
        @ rng_events e (clock w + 2) 8 @
        [Ev_UART_Transmit huart2 (concat (map word_bytes (rng_words e (clock w + 2) 8))) 32 HAL_OK,
         Ev_UART_Receive huart2 64 HAL_OK psg,
         Ev_InitSha256 0,
         Ev_Sha256Update (concat (map word_bytes (rng_words e (clock w + 2) 8))) 0,
         Ev_Sha256Final (concat (map word_bytes (rng_words e (clock w + 2) 8))) 0 (SHA256 e (concat (map word_bytes (rng_words e (clock w + 2) 8)))),
         Ev_ecc_init,
         Ev_ecc_import_x963 d2 0,
         Ev_ecc_set_curve 0,
         Ev_ecc_verify_hash psg (SHA256 e (concat (map word_bytes (rng_words e (clock w + 2) 8)))) d2 0 1,
         Ev_ecc_free,
         Ev_UART_Receive huart2 32 HAL_OK d6,
         Ev_InitSha256 0,
         Ev_Sha256Update d6 0,
         Ev_Sha256Final d6 0 (SHA256 e d6),
         Ev_atcab_sign 0 (SHA256 e d6) ATCA_SUCCESS sg,
         Ev_UART_Transmit huart2 sg 64 HAL_OK,
         Ev_atcab_ecdh 0 d2 ATCA_SUCCESS secret,
         Ev_InitSha256 0,
         Ev_Sha256Update secret 0,
         Ev_Sha256Final secret 0 (SHA256 e secret)]\<rparr>"
    unfolding Let_def by blast
  show ?thesis
    apply (rule exI [of _ psg], rule exI [of _ sg], rule exI [of _ secret])
    using sz len
    by (simp add: W new_events_def buffers_sized_def sizes)
qed

theorem handshake_order_witness:
  "perform_key_exchange env_ok boot_world
     = (ATCA_SUCCESS, snd (perform_key_exchange env_ok boot_world))
   \<and> buffers_sized boot_world
   \<and> challenge (snd (perform_key_exchange env_ok boot_world))
       = concat (map word_bytes (rng_values
           (new_events boot_world (snd (perform_key_exchange env_ok boot_world)))))
   \<and> length (filter handshake_step
         (new_events boot_world (snd (perform_key_exchange env_ok boot_world)))) = 9"
proof -
  have h0: "fst (perform_key_exchange env_ok boot_world) = ATCA_SUCCESS"
    by (simp add: perform_key_exchange_def send_data_def receive_data_def generate_random_32
          verify_peer_public_key_def sign_message_def derive_shared_secret_def calls Let_def
          sizes env_ok_def boot_world_def)
  have h1: "perform_key_exchange env_ok boot_world
              = (ATCA_SUCCESS, snd (perform_key_exchange env_ok boot_world))"
    by (simp add: prod_eq_iff h0)
  have h2: "buffers_sized boot_world"
    by (simp add: buffers_sized_def boot_world_def sizes)
  from handshake_order [OF h1 h2] obtain peer_sig sg secret where
    a: "filter handshake_step
          (new_events boot_world (snd (perform_key_exchange env_ok boot_world)))
        = [Ev_UART_Transmit huart2 (device_pubkey boot_world) PUB_KEY_SIZE HAL_OK,
       Ev_UART_Receive huart2 PUB_KEY_SIZE HAL_OK (peer_pubkey (snd (perform_key_exchange env_ok boot_world))),
       Ev_UART_Transmit huart2 (challenge (snd (perform_key_exchange env_ok boot_world))) CHALLENGE_SIZE HAL_OK,
       Ev_UART_Receive huart2 SIGNATURE_SIZE HAL_OK peer_sig,
       Ev_ecc_verify_hash peer_sig (SHA256 env_ok (challenge (snd (perform_key_exchange env_ok boot_world)))) (peer_pubkey (snd (perform_key_exchange env_ok boot_world))) 0 1,
       Ev_UART_Receive huart2 CHALLENGE_SIZE HAL_OK (peer_challenge (snd (perform_key_exchange env_ok boot_world))),
       Ev_atcab_sign DEVICE_KEY_SLOT (SHA256 env_ok (peer_challenge (snd (perform_key_exchange env_ok boot_world)))) ATCA_SUCCESS sg,
       Ev_UART_Transmit huart2 sg SIGNATURE_SIZE HAL_OK,
       Ev_atcab_ecdh DEVICE_KEY_SLOT (peer_pubkey (snd (perform_key_exchange env_ok boot_world))) ATCA_SUCCESS secret]"
    and b: "challenge (snd (perform_key_exchange env_ok boot_world))
       = concat (map word_bytes (rng_values
           (new_events boot_world (snd (perform_key_exchange env_ok boot_world)))))"
    by blast
  have "length (filter handshake_step
         (new_events boot_world (snd (perform_key_exchange env_ok boot_world)))) = 9"
    unfolding a by simp
  with h1 h2 b show ?thesis by blast
qed

text \<open>
  Claim C5. \<open>verify_peer_public_key\<close> returns \<open>ATCA_FUNC_FAIL\<close> exactly when the import of
  the peer key, the curve set-up or the signature check fails. It returns \<open>ATCA_SUCCESS\<close>
  exactly when a 64-byte signature was received and the check of that signature against
  SHA-256 of the local challenge under the stored peer public key returned 0 with
  \<open>verify_res = 1\<close>. When \<open>perform_key_exchange\<close> has reached the step and the step does not
  succeed, \<open>perform_key_exchange\<close> returns \<open>ATCA_FUNC_FAIL\<close> in the state the step has left:
  nothing is retried and nothing else is run.
\<close>

theorem verify_peer_step:
  assumes "verify_peer_public_key e w = (st, w')"
  shows "(st = ATCA_FUNC_FAIL \<longleftrightarrow> (\<exists>ev \<in> set (new_events w w'). auth_failure ev))
    \<and> (st = ATCA_SUCCESS \<longleftrightarrow>
         (\<exists>sg. Ev_UART_Receive huart2 SIGNATURE_SIZE HAL_OK sg \<in> set (new_events w w')
             \<and> Ev_ecc_verify_hash sg (SHA256 e (take CHALLENGE_SIZE (challenge w)))
                  (take PUB_KEY_SIZE (peer_pubkey w)) 0 1 \<in> set (new_events w w')))
    \<and> (\<forall>w0 w1 pk w2 ch w3.
          send_data e (device_pubkey w0) PUB_KEY_SIZE w0 = (ATCA_SUCCESS, w1)
        \<and> receive_data e (peer_pubkey w1) PUB_KEY_SIZE w1 = (ATCA_SUCCESS, pk, w2)
        \<and> generate_random e (challenge w2) CHALLENGE_SIZE (w2\<lparr>peer_pubkey := pk\<rparr>) = (ch, w3)
        \<and> send_data e ch CHALLENGE_SIZE (w3\<lparr>challenge := ch\<rparr>) = (ATCA_SUCCESS, w)
        \<and> st \<noteq> ATCA_SUCCESS
        \<longrightarrow> perform_key_exchange e w0 = (ATCA_FUNC_FAIL, w'))"
proof -
  have a: "st = ATCA_FUNC_FAIL \<longleftrightarrow> (\<exists>ev \<in> set (new_events w w'). auth_failure ev)"
    using assms
    by (auto simp: verify_peer_public_key_def receive_data_def calls sizes Let_def
          new_events_def split: prod.splits if_splits)
  have b: "st = ATCA_SUCCESS \<longleftrightarrow>
         (\<exists>sg. Ev_UART_Receive huart2 SIGNATURE_SIZE HAL_OK sg \<in> set (new_events w w')
             \<and> Ev_ecc_verify_hash sg (SHA256 e (take CHALLENGE_SIZE (challenge w)))
                  (take PUB_KEY_SIZE (peer_pubkey w)) 0 1 \<in> set (new_events w w'))"
    using assms
    by (auto simp: verify_peer_public_key_def receive_data_def calls sizes Let_def
          new_events_def split: prod.splits if_splits)
  have c: "perform_key_exchange e w0 = (ATCA_FUNC_FAIL, w')"
    if "send_data e (device_pubkey w0) PUB_KEY_SIZE w0 = (ATCA_SUCCESS, w1)"
      "receive_data e (peer_pubkey w1) PUB_KEY_SIZE w1 = (ATCA_SUCCESS, pk, w2)"
      "generate_random e (challenge w2) CHALLENGE_SIZE (w2\<lparr>peer_pubkey := pk\<rparr>) = (ch, w3)"
      "send_data e ch CHALLENGE_SIZE (w3\<lparr>challenge := ch\<rparr>) = (ATCA_SUCCESS, w)"
      "st \<noteq> ATCA_SUCCESS" for w0 w1 pk w2 ch w3
    using that assms by (simp add: perform_key_exchange_def Let_def)
  from a b c show ?thesis by blast
qed


theorem verify_peer_step_witness:
  "let e = env_bad_sig;
       w1 = snd (send_data e (device_pubkey boot_world) PUB_KEY_SIZE boot_world);
       r2 = receive_data e (peer_pubkey w1) PUB_KEY_SIZE w1;
       r3 = generate_random e (challenge (snd (snd r2))) CHALLENGE_SIZE
              ((snd (snd r2))\<lparr>peer_pubkey := fst (snd r2)\<rparr>);
       w4 = snd (send_data e (fst r3) CHALLENGE_SIZE ((snd r3)\<lparr>challenge := fst r3\<rparr>));
       w5 = snd (verify_peer_public_key e w4)
   in send_data e (device_pubkey boot_world) PUB_KEY_SIZE boot_world = (ATCA_SUCCESS, w1)
    \<and> r2 = (ATCA_SUCCESS, fst (snd r2), snd (snd r2))
    \<and> send_data e (fst r3) CHALLENGE_SIZE ((snd r3)\<lparr>challenge := fst r3\<rparr>)
          = (ATCA_SUCCESS, w4)
    \<and> verify_peer_public_key e w4 = (ATCA_FUNC_FAIL, w5)
    \<and> ATCA_FUNC_FAIL \<noteq> ATCA_SUCCESS
    \<and> perform_key_exchange e boot_world = (ATCA_FUNC_FAIL, w5)"
proof -
  define e where "e = env_bad_sig"
  define w1 where "w1 = snd (send_data e (device_pubkey boot_world) PUB_KEY_SIZE boot_world)"
  define r2 where "r2 = receive_data e (peer_pubkey w1) PUB_KEY_SIZE w1"
  define r3 where "r3 = generate_random e (challenge (snd (snd r2))) CHALLENGE_SIZE
              ((snd (snd r2))\<lparr>peer_pubkey := fst (snd r2)\<rparr>)"
  define w4 where
    "w4 = snd (send_data e (fst r3) CHALLENGE_SIZE ((snd r3)\<lparr>challenge := fst r3\<rparr>))"
  define w5 where "w5 = snd (verify_peer_public_key e w4)"
  have tx: "fst (send_data e b n w) = ATCA_SUCCESS" for b n w
    by (simp add: send_data_def calls Let_def e_def env_bad_sig_def env_ok_def)
  have rx: "fst (receive_data e b n w) = ATCA_SUCCESS" for b n w
    by (simp add: receive_data_def calls Let_def e_def env_bad_sig_def env_ok_def)
  have vf: "fst (verify_peer_public_key e w) = ATCA_FUNC_FAIL" for w
    by (simp add: verify_peer_public_key_def receive_data_def calls Let_def sizes e_def
          env_bad_sig_def env_ok_def)
  have h1: "send_data e (device_pubkey boot_world) PUB_KEY_SIZE boot_world = (ATCA_SUCCESS, w1)"
    by (simp add: prod_eq_iff tx w1_def)
  have h2: "receive_data e (peer_pubkey w1) PUB_KEY_SIZE w1
              = (ATCA_SUCCESS, fst (snd r2), snd (snd r2))"
    by (simp add: prod_eq_iff rx r2_def)
  have h3: "generate_random e (challenge (snd (snd r2))) CHALLENGE_SIZE
              ((snd (snd r2))\<lparr>peer_pubkey := fst (snd r2)\<rparr>) = (fst r3, snd r3)"
    by (simp add: r3_def)
  have h4: "send_data e (fst r3) CHALLENGE_SIZE ((snd r3)\<lparr>challenge := fst r3\<rparr>)
              = (ATCA_SUCCESS, w4)"
    by (simp add: prod_eq_iff tx w4_def)
  have h5: "verify_peer_public_key e w4 = (ATCA_FUNC_FAIL, w5)"
    by (simp add: prod_eq_iff vf w5_def)
  have ne: "ATCA_FUNC_FAIL \<noteq> ATCA_SUCCESS" by simp
  from verify_peer_step [OF h5] h1 h2 h3 h4 ne
  have "perform_key_exchange e boot_world = (ATCA_FUNC_FAIL, w5)" by blast
  with h1 h2 h4 h5 ne show ?thesis
    unfolding Let_def e_def [symmetric] w1_def [symmetric] r2_def [symmetric]
      r3_def [symmetric] w4_def [symmetric] w5_def [symmetric]
    by blast
qed

end
